theory Spec2Isabelle
  imports Main
begin

section \<open>Go values that the error dispatcher sees\<close>

text \<open>
  The package under study is \<^verbatim>\<open>errors/handler.go\<close>. Its functions take values of the Go
  interface types \<^verbatim>\<open>error\<close> and \<^verbatim>\<open>any\<close>, and they call three library functions:
  \<^verbatim>\<open>errors.Is\<close>, \<^verbatim>\<open>errors.As\<close> and \<^verbatim>\<open>reflect.New(reflect.TypeOf(x))\<close>.

  A concrete type with an \<^verbatim>\<open>Error() string\<close> method is a \<open>gotype\<close>: its name (what
  \<^verbatim>\<open>%T\<close> prints) and whether Go can compare its values with \<^verbatim>\<open>==\<close>.
  A non-nil \<^verbatim>\<open>error\<close> is a \<open>goerr\<close>: its dynamic type, the content that \<^verbatim>\<open>==\<close>
  compares (an address for a pointer type, the fields otherwise), the name of the
  dynamic type of an uncomparable value (a slice, a map, a function) that the value
  holds in a field of interface type after that content, if it holds one, the string
  its \<^verbatim>\<open>Error()\<close> method returns, and the non-nil errors its \<^verbatim>\<open>Unwrap\<close> method
  returns (none without such a method or when it returns nil, one for
  \<^verbatim>\<open>Unwrap() error\<close>, several for \<^verbatim>\<open>Unwrap() []error\<close>). A value of type \<^verbatim>\<open>error\<close> is a
  \<open>goerr option\<close>, with \<open>None\<close> for nil. Values are finite trees, so an \<^verbatim>\<open>Unwrap\<close>
  that leads back to its own receiver is not represented.
\<close>

datatype gotype = GoType (tyName: string) (tyComparable: bool)

datatype goerr =
  GoErr (dynType: gotype) (ident: nat) (boxed: "string option") (errorText: string)
    (children: "goerr list")

text \<open>
  A value of type \<^verbatim>\<open>any\<close>: nil, a value whose dynamic type implements \<^verbatim>\<open>error\<close>, or a
  value of some other concrete type (named), such as an \<^verbatim>\<open>int\<close>.
\<close>

datatype any = AnyNil | AnyErr goerr | AnyOther string

text \<open>
  The types \<^verbatim>\<open>errors.As\<close> accepts behind its target pointer, which are also the type
  arguments that the constraint of \<^verbatim>\<open>OnCustomError[T error]\<close> admits: a concrete type
  that implements \<^verbatim>\<open>error\<close>, or an interface type, given by the concrete error types
  that implement it. A \<^verbatim>\<open>reflect.Type\<close> is one of these or a concrete type (named) that
  does not implement \<^verbatim>\<open>error\<close>.
\<close>

datatype errtype = Concrete gotype | Interface "gotype \<Rightarrow> bool"

datatype rtype = ErrorLike errtype | NonError string

text \<open>
  Methods belong to types. \<open>IsMethod\<close> gives the type's \<^verbatim>\<open>Is(error) bool\<close> method, applied
  to the receiver and the target, when the type declares one; \<open>AsMethod\<close> gives its
  \<^verbatim>\<open>As(any) bool\<close> method, applied to the receiver and the type the target points to:
  \<open>Some v\<close> when the method stores \<open>v\<close> in the target and returns true, \<open>None\<close> when it
  returns false.
\<close>

record methods =
  IsMethod :: "gotype \<Rightarrow> (goerr \<Rightarrow> goerr \<Rightarrow> bool) option"
  AsMethod :: "gotype \<Rightarrow> (goerr \<Rightarrow> errtype \<Rightarrow> goerr option) option"

datatype panic = Panic string

section \<open>The library functions the dispatcher calls\<close>

text \<open>
  The comparison \<^verbatim>\<open>err == target\<close> of two non-nil interface values whose target has a
  comparable dynamic type. Values of different dynamic types are unequal. Values of one
  type are compared field by field in source order, and the comparison stops at the
  first difference; when it reaches a field of interface type that holds values of the
  same uncomparable type on both sides, the run-time system panics.
\<close>

definition equal_values :: "goerr \<Rightarrow> goerr \<Rightarrow> panic + bool" where
  "equal_values err target =
     (case (boxed err, boxed target) of
        (Some n, Some n') \<Rightarrow>
          if dynType err = dynType target \<and> ident err = ident target \<and> n = n'
          then Inl (Panic (''runtime error: comparing uncomparable type '' @ n))
          else Inr (err = target)
      | _ \<Rightarrow> Inr (err = target))"

text \<open>
  \<^verbatim>\<open>errors.Is\<close>, after the Go standard library: the loop \<^verbatim>\<open>is(err, target, targetComparable)\<close>
  tests \<^verbatim>\<open>targetComparable && err == target\<close>, then the \<^verbatim>\<open>Is\<close> method of \<^verbatim>\<open>err\<close>,
  then descends into what \<^verbatim>\<open>Unwrap\<close> returns, depth first. A panic of the comparison
  ends the walk.
\<close>

definition call_Is :: "methods \<Rightarrow> goerr \<Rightarrow> goerr \<Rightarrow> bool" where
  "call_Is \<mu> err target = (case IsMethod \<mu> (dynType err) of Some m \<Rightarrow> m err target | None \<Rightarrow> False)"

fun is_loop :: "methods \<Rightarrow> goerr \<Rightarrow> bool \<Rightarrow> goerr \<Rightarrow> panic + bool"
  and is_each :: "methods \<Rightarrow> goerr \<Rightarrow> bool \<Rightarrow> goerr list \<Rightarrow> panic + bool" where
  "is_loop \<mu> target targetComparable (GoErr ty a box msg unwrapped) =
     (case (if targetComparable then equal_values (GoErr ty a box msg unwrapped) target
            else Inr False) of
        Inl p \<Rightarrow> Inl p
      | Inr True \<Rightarrow> Inr True
      | Inr False \<Rightarrow>
          if call_Is \<mu> (GoErr ty a box msg unwrapped) target then Inr True
          else is_each \<mu> target targetComparable unwrapped)"
| "is_each \<mu> target targetComparable [] = Inr False"
| "is_each \<mu> target targetComparable (err # errs) =
     (case is_loop \<mu> target targetComparable err of
        Inl p \<Rightarrow> Inl p
      | Inr True \<Rightarrow> Inr True
      | Inr False \<Rightarrow> is_each \<mu> target targetComparable errs)"

definition errors_Is :: "methods \<Rightarrow> goerr option \<Rightarrow> goerr option \<Rightarrow> panic + bool" where
  "errors_Is \<mu> err target =
     (case (err, target) of
        (Some e, Some t) \<Rightarrow> is_loop \<mu> t (tyComparable (dynType t)) e
      | _ \<Rightarrow> Inr (err = target))"

text \<open>
  \<^verbatim>\<open>errors.As\<close>: the loop \<^verbatim>\<open>as(err, target, targetVal, targetType)\<close> tests whether the
  dynamic type of \<^verbatim>\<open>err\<close> is assignable to the target type, then the \<^verbatim>\<open>As\<close> method of
  \<^verbatim>\<open>err\<close>, then descends into what \<^verbatim>\<open>Unwrap\<close> returns. The result is the value left in
  the target, \<open>None\<close> when the call returns false.
\<close>

fun assignable :: "gotype \<Rightarrow> errtype \<Rightarrow> bool" where
  "assignable t (Concrete u) = (t = u)"
| "assignable t (Interface implementedBy) = implementedBy t"

definition call_As :: "methods \<Rightarrow> goerr \<Rightarrow> errtype \<Rightarrow> goerr option" where
  "call_As \<mu> err targetType =
     (case AsMethod \<mu> (dynType err) of Some m \<Rightarrow> m err targetType | None \<Rightarrow> None)"

fun as_loop :: "methods \<Rightarrow> errtype \<Rightarrow> goerr \<Rightarrow> goerr option"
  and as_each :: "methods \<Rightarrow> errtype \<Rightarrow> goerr list \<Rightarrow> goerr option" where
  "as_loop \<mu> targetType (GoErr ty a box msg unwrapped) =
     (if assignable ty targetType then Some (GoErr ty a box msg unwrapped)
      else (case call_As \<mu> (GoErr ty a box msg unwrapped) targetType of
              Some v \<Rightarrow> Some v
            | None \<Rightarrow> as_each \<mu> targetType unwrapped))"
| "as_each \<mu> targetType [] = None"
| "as_each \<mu> targetType (err # errs) =
     (case as_loop \<mu> targetType err of
        Some v \<Rightarrow> Some v
      | None \<Rightarrow> as_each \<mu> targetType errs)"

text \<open>
  The entry point \<^verbatim>\<open>errors.As(err, target)\<close> for a target that is a non-nil pointer, given
  by the type it points to: false on a nil \<^verbatim>\<open>err\<close>, and a panic when the pointed-to type is
  neither an interface nor an implementation of \<^verbatim>\<open>error\<close>.
\<close>

definition errors_As :: "methods \<Rightarrow> goerr option \<Rightarrow> rtype \<Rightarrow> panic + goerr option" where
  "errors_As \<mu> err targetType =
     (case err of
        None \<Rightarrow> Inr None
      | Some e \<Rightarrow>
          (case targetType of
             NonError n \<Rightarrow> Inl (Panic ''errors: *target must be interface or implement error'')
           | ErrorLike T \<Rightarrow> Inr (as_loop \<mu> T e)))"

text \<open>
  \<^verbatim>\<open>reflect.TypeOf\<close> returns the nil \<^verbatim>\<open>Type\<close> for a nil interface value, and
  \<^verbatim>\<open>reflect.New\<close> panics on the nil \<^verbatim>\<open>Type\<close>; otherwise it returns a pointer to a new zero
  value, which is represented by the type it points to.
\<close>

fun reflect_TypeOf :: "any \<Rightarrow> rtype option" where
  "reflect_TypeOf AnyNil = None"
| "reflect_TypeOf (AnyErr e) = Some (ErrorLike (Concrete (dynType e)))"
| "reflect_TypeOf (AnyOther n) = Some (NonError n)"

fun reflect_New :: "rtype option \<Rightarrow> panic + rtype" where
  "reflect_New None = Inl (Panic ''reflect: New(nil)'')"
| "reflect_New (Some t) = Inr t"

text \<open>
  \<^verbatim>\<open>fmt.Sprintf("Unhandled error of type %T: %v", err, err)\<close>: \<^verbatim>\<open>%T\<close> prints the name of
  the dynamic type and \<^verbatim>\<open>%v\<close> the string of \<^verbatim>\<open>Error()\<close>; both print
  \<^verbatim>\<open><nil>\<close> for a nil interface value.
\<close>

definition fmt_T :: "goerr option \<Rightarrow> string" where
  "fmt_T err = (case err of None \<Rightarrow> ''<nil>'' | Some e \<Rightarrow> tyName (dynType e))"

definition fmt_v :: "goerr option \<Rightarrow> string" where
  "fmt_v err = (case err of None \<Rightarrow> ''<nil>'' | Some e \<Rightarrow> errorText e)"

definition Sprintf_Unhandled :: "goerr option \<Rightarrow> string" where
  "Sprintf_Unhandled err = ''Unhandled error of type '' @ fmt_T err @ '': '' @ fmt_v err"

section \<open>The package: matchers and the three dispatch variants\<close>

text \<open>
  \<^verbatim>\<open>type ErrorHandler func(error) error\<close>. A handler is modelled by the value it returns;
  user code that panics inside a handler is outside the model (the package has no
  \<^verbatim>\<open>recover\<close>, so such a panic would leave the dispatcher as it is raised).
\<close>

type_synonym ErrorHandler = "goerr option \<Rightarrow> goerr option"

record ErrorMatcher =
  ErrorType :: any
  Handler :: ErrorHandler
  IsSentinel :: bool

text \<open>
  What a run does besides returning is kept in a log: the matchers the loop examined and
  the handlers it invoked, by position in the argument list, and the invocation of the
  default handler.
\<close>

datatype event = Tested nat | Invoked nat | InvokedDefault

text \<open>
  The condition that the body of the loop of \<^verbatim>\<open>HandleError\<close> evaluates for one matcher
  (lines 43 to 58): the type assertion and \<^verbatim>\<open>errors.Is\<close> for a sentinel matcher,
  \<^verbatim>\<open>reflect.New(reflect.TypeOf(...))\<close> and \<^verbatim>\<open>errors.As\<close> otherwise. Both library calls
  of the second branch can panic, and so can the comparison inside \<^verbatim>\<open>errors.Is\<close>.
\<close>

definition matches :: "methods \<Rightarrow> goerr \<Rightarrow> ErrorMatcher \<Rightarrow> panic + bool" where
  "matches \<mu> err matcher =
     (if IsSentinel matcher then
        (case ErrorType matcher of
           AnyErr sentinelErr \<Rightarrow> errors_Is \<mu> (Some err) (Some sentinelErr)
         | _ \<Rightarrow> Inr False)
      else
        (case reflect_New (reflect_TypeOf (ErrorType matcher)) of
           Inl p \<Rightarrow> Inl p
         | Inr errorValue \<Rightarrow>
             (case errors_As \<mu> (Some err) errorValue of
                Inl p \<Rightarrow> Inl p
              | Inr found \<Rightarrow> Inr (found \<noteq> None))))"

fun range_matchers ::
  "methods \<Rightarrow> goerr \<Rightarrow> nat \<Rightarrow> ErrorMatcher list \<Rightarrow> event list \<times> (panic + bool \<times> goerr option)" where
  "range_matchers \<mu> err k [] = ([], Inr (False, Some err))"
| "range_matchers \<mu> err k (matcher # rest) =
     (case matches \<mu> err matcher of
        Inl p \<Rightarrow> ([Tested k], Inl p)
      | Inr True \<Rightarrow> ([Tested k, Invoked k], Inr (True, Handler matcher (Some err)))
      | Inr False \<Rightarrow>
          (case range_matchers \<mu> err (Suc k) rest of (log, r) \<Rightarrow> (Tested k # log, r)))"

definition HandleError ::
  "methods \<Rightarrow> goerr option \<Rightarrow> ErrorMatcher list \<Rightarrow> event list \<times> (panic + bool \<times> goerr option)" where
  "HandleError \<mu> err matchers =
     (case err of
        None \<Rightarrow> ([], Inr (True, None))
      | Some e \<Rightarrow> range_matchers \<mu> e 0 matchers)"

definition Handle ::
  "methods \<Rightarrow> goerr option \<Rightarrow> ErrorMatcher list \<Rightarrow> event list \<times> (panic + bool \<times> goerr option)" where
  "Handle = HandleError"

definition HandleErrorOrDie ::
  "methods \<Rightarrow> goerr option \<Rightarrow> ErrorMatcher list \<Rightarrow> event list \<times> (panic + goerr option)" where
  "HandleErrorOrDie \<mu> err matchers =
     (case HandleError \<mu> err matchers of
        (log, Inl p) \<Rightarrow> (log, Inl p)
      | (log, Inr (ok, err')) \<Rightarrow>
          if \<not> ok then (log, Inl (Panic (Sprintf_Unhandled err')))
          else (log, Inr err'))"

definition MustHandle ::
  "methods \<Rightarrow> goerr option \<Rightarrow> ErrorMatcher list \<Rightarrow> event list \<times> (panic + goerr option)" where
  "MustHandle = HandleErrorOrDie"

definition HandleErrorOrDefault ::
  "methods \<Rightarrow> goerr option \<Rightarrow> ErrorHandler option \<Rightarrow> ErrorMatcher list
     \<Rightarrow> event list \<times> (panic + goerr option)" where
  "HandleErrorOrDefault \<mu> err dft matchers =
     (case HandleError \<mu> err matchers of
        (log, Inl p) \<Rightarrow> (log, Inl p)
      | (log, Inr (ok, err')) \<Rightarrow>
          if \<not> ok then
            (case dft of
               None \<Rightarrow> (log, Inr None)
             | Some d \<Rightarrow> (log @ [InvokedDefault], Inr (d err')))
          else (log, Inr err'))"

definition HandleOr ::
  "methods \<Rightarrow> goerr option \<Rightarrow> ErrorHandler option \<Rightarrow> ErrorMatcher list
     \<Rightarrow> event list \<times> (panic + goerr option)" where
  "HandleOr = HandleErrorOrDefault"

text \<open>
  The builders. \<^verbatim>\<open>OnSentinelError\<close> stores its \<^verbatim>\<open>error\<close> argument in the field of type
  \<^verbatim>\<open>any\<close>. \<^verbatim>\<open>OnCustomError[T]\<close> stores the zero value of \<^verbatim>\<open>T\<close> there: a value of
  dynamic type \<^verbatim>\<open>T\<close> for a concrete \<^verbatim>\<open>T\<close> (only its type is ever read), and nil for an
  interface type, whose zero value is the nil interface. The handler it stores runs
  \<^verbatim>\<open>errors.As(err, &typedErr)\<close> again with \<^verbatim>\<open>typedErr\<close> of type \<^verbatim>\<open>T\<close>.
\<close>

fun any_of_error :: "goerr option \<Rightarrow> any" where
  "any_of_error None = AnyNil"
| "any_of_error (Some e) = AnyErr e"

fun zero_any :: "errtype \<Rightarrow> any" where
  "zero_any (Concrete t) = AnyErr (GoErr t 0 None [] [])"
| "zero_any (Interface implementedBy) = AnyNil"

definition OnSentinelError :: "goerr option \<Rightarrow> ErrorHandler \<Rightarrow> ErrorMatcher" where
  "OnSentinelError sentinelErr handler =
     \<lparr>ErrorType = any_of_error sentinelErr, Handler = handler, IsSentinel = True\<rparr>"

definition OnCustomError :: "methods \<Rightarrow> errtype \<Rightarrow> (goerr \<Rightarrow> goerr option) \<Rightarrow> ErrorMatcher" where
  "OnCustomError \<mu> T handler =
     \<lparr>ErrorType = zero_any T,
      Handler = (\<lambda>err. case errors_As \<mu> err (ErrorLike T) of
                         Inr (Some typedErr) \<Rightarrow> handler typedErr
                       | _ \<Rightarrow> None),
      IsSentinel = False\<rparr>"

definition OnSentinel :: "goerr option \<Rightarrow> ErrorHandler \<Rightarrow> ErrorMatcher" where
  "OnSentinel = OnSentinelError"

definition OnType :: "methods \<Rightarrow> errtype \<Rightarrow> (goerr \<Rightarrow> goerr option) \<Rightarrow> ErrorMatcher" where
  "OnType \<mu> T handler = OnCustomError \<mu> T handler"


definition wrap :: "nat \<Rightarrow> string \<Rightarrow> goerr \<Rightarrow> goerr" where
  "wrap a msg err = GoErr (GoType ''*fmt.wrapError'' True) a None msg [err]"

section \<open>Sample values\<close>

text \<open>
  A program without \<^verbatim>\<open>Is\<close> or \<^verbatim>\<open>As\<close> methods, sentinel errors as \<^verbatim>\<open>errors.New\<close>
  makes them, a custom error type, and a few handlers.
\<close>

definition no_methods :: methods where
  "no_methods = \<lparr>IsMethod = (\<lambda>t. None), AsMethod = (\<lambda>t. None)\<rparr>"

definition errorString :: gotype where
  "errorString = GoType ''*errors.errorString'' True"

definition ErrNotFound :: goerr where
  "ErrNotFound = GoErr errorString 1 None ''not found'' []"

definition ErrConflict :: goerr where
  "ErrConflict = GoErr errorString 2 None ''conflict'' []"

definition ErrR :: goerr where
  "ErrR = GoErr errorString 3 None ''R'' []"

definition StatusError :: gotype where
  "StatusError = GoType ''*main.StatusError'' True"

definition status404 :: goerr where
  "status404 = GoErr StatusError 4 None ''status 404'' []"

definition replace_with_R :: ErrorHandler where
  "replace_with_R err = Some ErrR"

definition suppress :: ErrorHandler where
  "suppress err = None"

definition pass_through :: ErrorHandler where
  "pass_through err = err"










text \<open>The zero value \<^verbatim>\<open>ErrorMatcher{}\<close> with a handler filled in.\<close>

definition zero_matcher :: ErrorMatcher where
  "zero_matcher = \<lparr>ErrorType = AnyNil, Handler = suppress, IsSentinel = False\<rparr>"

section \<open>The loop over the matchers\<close>

text \<open>
  The test of one matcher has three outcomes: it reports a match (\<open>Inr True\<close>), it reports
  no match (\<open>Inr False\<close>), or a call or a comparison inside it panics (\<open>Inl p\<close>). The loop is
  decided by the first matcher whose test is not \<open>Inr False\<close>; the lemmas below give
  the result and the log in each of the three cases, and read them back from a result.
\<close>

lemma range_all_miss:
  "\<forall>m\<in>set M. matches \<mu> e m = Inr False \<Longrightarrow>
   range_matchers \<mu> e k M = (map Tested [k..<k + length M], Inr (False, Some e))"
proof (induction M arbitrary: k)
  case Nil
  then show ?case by simp
next
  case (Cons m M)
  have "range_matchers \<mu> e (Suc k) M = (map Tested [Suc k..<Suc k + length M], Inr (False, Some e))"
    using Cons by simp
  moreover have "matches \<mu> e m = Inr False" using Cons.prems by simp
  ultimately show ?case by (simp add: upt_rec)
qed

lemma range_first_hit:
  "i < length M \<Longrightarrow> matches \<mu> e (M ! i) = Inr True \<Longrightarrow>
   \<forall>j<i. matches \<mu> e (M ! j) = Inr False \<Longrightarrow>
   range_matchers \<mu> e k M =
     (map Tested [k..<Suc (k + i)] @ [Invoked (k + i)], Inr (True, Handler (M ! i) (Some e)))"
proof (induction M arbitrary: k i)
  case Nil
  then show ?case by simp
next
  case (Cons m M)
  show ?case
  proof (cases i)
    case 0
    then show ?thesis using Cons.prems by simp
  next
    case (Suc i')
    have m: "matches \<mu> e m = Inr False" using Cons.prems(3) Suc by auto
    have "range_matchers \<mu> e (Suc k) M =
       (map Tested [Suc k..<Suc (Suc k + i')] @ [Invoked (Suc k + i')], Inr (True, Handler (M ! i') (Some e)))"
      using Cons.prems Suc by (intro Cons.IH) auto
    then show ?thesis using m Suc by (simp add: upt_rec[of k])
  qed
qed

lemma range_first_crash:
  "i < length M \<Longrightarrow> matches \<mu> e (M ! i) = Inl p \<Longrightarrow>
   \<forall>j<i. matches \<mu> e (M ! j) = Inr False \<Longrightarrow>
   range_matchers \<mu> e k M = (map Tested [k..<Suc (k + i)], Inl p)"
proof (induction M arbitrary: k i)
  case Nil
  then show ?case by simp
next
  case (Cons m M)
  show ?case
  proof (cases i)
    case 0
    then show ?thesis using Cons.prems by simp
  next
    case (Suc i')
    have m: "matches \<mu> e m = Inr False" using Cons.prems(3) Suc by auto
    have "range_matchers \<mu> e (Suc k) M = (map Tested [Suc k..<Suc (Suc k + i')], Inl p)"
      using Cons.prems Suc by (intro Cons.IH) auto
    then show ?thesis using m Suc by (simp add: upt_rec[of k])
  qed
qed

lemma first_decisive:
  "(\<forall>m\<in>set M. matches \<mu> e m = Inr False)
   \<or> (\<exists>i<length M. matches \<mu> e (M ! i) \<noteq> Inr False \<and> (\<forall>j<i. matches \<mu> e (M ! j) = Inr False))"
proof (induction M)
  case Nil
  then show ?case by simp
next
  case (Cons m M)
  show ?case
  proof (cases "matches \<mu> e m = Inr False")
    case False
    then have "0 < length (m # M) \<and> matches \<mu> e ((m # M) ! 0) \<noteq> Inr False
        \<and> (\<forall>j<0. matches \<mu> e ((m # M) ! j) = Inr False)" by simp
    then show ?thesis by blast
  next
    case True
    from Cons.IH show ?thesis
    proof
      assume "\<forall>m\<in>set M. matches \<mu> e m = Inr False"
      then show ?thesis using True by simp
    next
      assume "\<exists>i<length M. matches \<mu> e (M ! i) \<noteq> Inr False \<and> (\<forall>j<i. matches \<mu> e (M ! j) = Inr False)"
      then obtain i where i: "i < length M" "matches \<mu> e (M ! i) \<noteq> Inr False"
        "\<forall>j<i. matches \<mu> e (M ! j) = Inr False" by blast
      have "\<forall>j<Suc i. matches \<mu> e ((m # M) ! j) = Inr False"
        using True i(3) by (auto simp: less_Suc_eq_0_disj)
      then have "Suc i < length (m # M) \<and> matches \<mu> e ((m # M) ! Suc i) \<noteq> Inr False
        \<and> (\<forall>j<Suc i. matches \<mu> e ((m # M) ! j) = Inr False)" using i by simp
      then show ?thesis by blast
    qed
  qed
qed

lemma equal_values_panic_values:
  "equal_values x t = Inl p \<Longrightarrow>
   \<exists>n. p = Panic (''runtime error: comparing uncomparable type '' @ n)"
  by (auto simp: equal_values_def split: option.splits if_splits)

lemma is_loop_panic_values:
  "is_loop \<mu> t c e = Inl p \<Longrightarrow>
   \<exists>n. p = Panic (''runtime error: comparing uncomparable type '' @ n)"
  and is_each_panic_values:
  "is_each \<mu> t c es = Inl p \<Longrightarrow>
   \<exists>n. p = Panic (''runtime error: comparing uncomparable type '' @ n)"
  by (induction \<mu> t c e and \<mu> t c es rule: is_loop_is_each.induct)
     (auto split: sum.splits bool.splits if_splits dest: equal_values_panic_values)

lemma matches_panic_values:
  "matches \<mu> e m = Inl p \<Longrightarrow>
   p = Panic ''reflect: New(nil)''
   \<or> p = Panic ''errors: *target must be interface or implement error''
   \<or> (\<exists>n. p = Panic (''runtime error: comparing uncomparable type '' @ n))"
  by (cases "ErrorType m")
     (auto simp: matches_def errors_As_def errors_Is_def
           split: if_splits any.splits sum.splits rtype.splits dest: is_loop_panic_values)

lemma range_panic_values:
  "range_matchers \<mu> e k M = (log, Inl p) \<Longrightarrow>
   p = Panic ''reflect: New(nil)''
   \<or> p = Panic ''errors: *target must be interface or implement error''
   \<or> (\<exists>n. p = Panic (''runtime error: comparing uncomparable type '' @ n))"
proof (induction M arbitrary: k log)
  case Nil
  then show ?case by simp
next
  case (Cons m M)
  show ?case
  proof (cases "matches \<mu> e m")
    case (Inl q)
    then have "p = q" using Cons.prems by simp
    then show ?thesis using matches_panic_values Inl by blast
  next
    case (Inr b)
    show ?thesis
    proof (cases b)
      case True
      then show ?thesis using Cons.prems Inr by simp
    next
      case False
      obtain log' r where r: "range_matchers \<mu> e (Suc k) M = (log', r)" by (cases "range_matchers \<mu> e (Suc k) M")
      then have "r = Inl p" using Cons.prems Inr False by simp
      then show ?thesis using Cons.IH r by blast
    qed
  qed
qed

lemma range_returns_unmatched:
  "range_matchers \<mu> e k M = (log, Inr (False, r)) \<Longrightarrow>
   (\<forall>m\<in>set M. matches \<mu> e m = Inr False) \<and> r = Some e"
proof -
  assume a: "range_matchers \<mu> e k M = (log, Inr (False, r))"
  from first_decisive [of M \<mu> e] show ?thesis
  proof
    assume "\<forall>m\<in>set M. matches \<mu> e m = Inr False"
    then show ?thesis using range_all_miss [of M \<mu> e k] a by simp
  next
    assume "\<exists>i<length M. matches \<mu> e (M ! i) \<noteq> Inr False \<and> (\<forall>j<i. matches \<mu> e (M ! j) = Inr False)"
    then obtain i where i: "i < length M" "matches \<mu> e (M ! i) \<noteq> Inr False"
      "\<forall>j<i. matches \<mu> e (M ! j) = Inr False" by blast
    show ?thesis
    proof (cases "matches \<mu> e (M ! i)")
      case (Inl p)
      then show ?thesis using range_first_crash [OF i(1) Inl i(3), of k] a by simp
    next
      case (Inr b)
      then have "matches \<mu> e (M ! i) = Inr True" using i(2) by (cases b) auto
      then show ?thesis using range_first_hit [OF i(1) _ i(3), of k] a by simp
    qed
  qed
qed

lemma range_returns_matched:
  "range_matchers \<mu> e k M = (log, Inr (True, r)) \<Longrightarrow>
   \<exists>i<length M. matches \<mu> e (M ! i) = Inr True \<and> (\<forall>j<i. matches \<mu> e (M ! j) = Inr False)
      \<and> r = Handler (M ! i) (Some e) \<and> log = map Tested [k..<Suc (k + i)] @ [Invoked (k + i)]"
proof -
  assume a: "range_matchers \<mu> e k M = (log, Inr (True, r))"
  from first_decisive [of M \<mu> e] show ?thesis
  proof
    assume "\<forall>m\<in>set M. matches \<mu> e m = Inr False"
    then show ?thesis using range_all_miss [of M \<mu> e k] a by simp
  next
    assume "\<exists>i<length M. matches \<mu> e (M ! i) \<noteq> Inr False \<and> (\<forall>j<i. matches \<mu> e (M ! j) = Inr False)"
    then obtain i where i: "i < length M" "matches \<mu> e (M ! i) \<noteq> Inr False"
      "\<forall>j<i. matches \<mu> e (M ! j) = Inr False" by blast
    show ?thesis
    proof (cases "matches \<mu> e (M ! i)")
      case (Inl p)
      then show ?thesis using range_first_crash [OF i(1) Inl i(3), of k] a by simp
    next
      case (Inr b)
      then have hit: "matches \<mu> e (M ! i) = Inr True" using i(2) by (cases b) auto
      have "r = Handler (M ! i) (Some e) \<and> log = map Tested [k..<Suc (k + i)] @ [Invoked (k + i)]"
        using range_first_hit [OF i(1) hit i(3), of k] a by simp
      then show ?thesis using i(1) i(3) hit by blast
    qed
  qed
qed

lemma range_extensional:
  "length M = length M' \<Longrightarrow>
   \<forall>i<length M. matches \<mu> e (M ! i) = matches \<mu> e (M' ! i)
       \<and> Handler (M ! i) (Some e) = Handler (M' ! i) (Some e) \<Longrightarrow>
   range_matchers \<mu> e k M = range_matchers \<mu> e k M'"
proof (induction M M' arbitrary: k rule: list_induct2)
  case Nil
  then show ?case by simp
next
  case (Cons m M m' M')
  have head: "matches \<mu> e m = matches \<mu> e m'" "Handler m (Some e) = Handler m' (Some e)"
    using Cons.prems by auto
  have "\<forall>i<length M. matches \<mu> e (M ! i) = matches \<mu> e (M' ! i)
       \<and> Handler (M ! i) (Some e) = Handler (M' ! i) (Some e)"
    using Cons.prems by auto
  then have "range_matchers \<mu> e (Suc k) M = range_matchers \<mu> e (Suc k) M'"
    by (rule Cons.IH)
  then show ?case using head by (simp split: sum.splits bool.splits)
qed

text \<open>
  The message of \<^verbatim>\<open>HandleErrorOrDie\<close> differs from the messages of the library panics
  and of the run-time panic, so its panic is told apart from theirs.
\<close>

lemma unhandled_is_no_library_panic:
  "Panic (Sprintf_Unhandled err) \<noteq> Panic ''reflect: New(nil)''"
  "Panic (Sprintf_Unhandled err) \<noteq> Panic ''errors: *target must be interface or implement error''"
  "Panic (Sprintf_Unhandled err) \<noteq> Panic (''runtime error: comparing uncomparable type '' @ n)"
  by (simp_all add: Sprintf_Unhandled_def)

lemma die_unhandled_iff:
  "(snd (HandleErrorOrDie \<mu> (Some e) M) = Inl (Panic (Sprintf_Unhandled (Some e))))
     = (\<forall>m\<in>set M. matches \<mu> e m = Inr False)"
proof
  assume all: "\<forall>m\<in>set M. matches \<mu> e m = Inr False"
  show "snd (HandleErrorOrDie \<mu> (Some e) M) = Inl (Panic (Sprintf_Unhandled (Some e)))"
    using range_all_miss [OF all, of 0] by (simp add: HandleErrorOrDie_def HandleError_def)
next
  assume p: "snd (HandleErrorOrDie \<mu> (Some e) M) = Inl (Panic (Sprintf_Unhandled (Some e)))"
  obtain log r where r: "range_matchers \<mu> e 0 M = (log, r)"
    by (cases "range_matchers \<mu> e 0 M")
  show "\<forall>m\<in>set M. matches \<mu> e m = Inr False"
  proof (cases r)
    case (Inl q)
    then have "q = Panic (Sprintf_Unhandled (Some e))"
      using p r by (simp add: HandleErrorOrDie_def HandleError_def)
    then show ?thesis
      using range_panic_values [of \<mu> e 0 M log q] r Inl unhandled_is_no_library_panic by auto
  next
    case (Inr okerr)
    obtain ok err' where okerr: "okerr = (ok, err')" by (cases okerr)
    have "\<not> ok" using p r Inr okerr by (auto simp: HandleErrorOrDie_def HandleError_def split: if_splits)
    then show ?thesis using range_returns_unmatched [of \<mu> e 0 M log err'] r Inr okerr by simp
  qed
qed

section \<open>The two library walks along a chain\<close>











section \<open>Matchers that no builder makes\<close>

text \<open>
  The sentinel branch guards its type assertion, so a sentinel matcher whose
  \<^verbatim>\<open>ErrorType\<close> holds no error is passed over. The other branch has no guard:
  \<^verbatim>\<open>reflect.New\<close> panics on the nil type of a nil \<^verbatim>\<open>ErrorType\<close>, and \<^verbatim>\<open>errors.As\<close>
  panics on a pointer to a type without an \<^verbatim>\<open>Error\<close> method. \<^verbatim>\<open>OnCustomError\<close> itself
  builds a matcher with a nil \<^verbatim>\<open>ErrorType\<close> when its type argument is an interface type.
\<close>

lemma typed_matcher_nil_witness_panics:
  "HandleError \<mu> (Some e) (\<lparr>ErrorType = AnyNil, Handler = h, IsSentinel = False\<rparr> # rest)
     = ([Tested 0], Inl (Panic ''reflect: New(nil)''))"
  by (simp add: HandleError_def matches_def)

lemma typed_matcher_non_error_witness_panics:
  "HandleError \<mu> (Some e) (\<lparr>ErrorType = AnyOther n, Handler = h, IsSentinel = False\<rparr> # rest)
     = ([Tested 0], Inl (Panic ''errors: *target must be interface or implement error''))"
  by (simp add: HandleError_def matches_def errors_As_def)

lemma typed_matcher_of_interface_type_panics:
  "HandleError \<mu> (Some e) (OnCustomError \<mu> (Interface implementedBy) h # rest)
     = ([Tested 0], Inl (Panic ''reflect: New(nil)''))"
  by (simp add: HandleError_def matches_def OnCustomError_def)

lemma sentinel_matcher_without_error_never_matches:
  "ErrorType m = AnyNil \<or> ErrorType m = AnyOther n \<Longrightarrow> IsSentinel m \<Longrightarrow>
   matches \<mu> e m = Inr False"
  by (auto simp: matches_def)

lemma sentinel_matcher_without_error_is_skipped:
  "ErrorType m = AnyNil \<or> ErrorType m = AnyOther n \<Longrightarrow> IsSentinel m \<Longrightarrow>
   range_matchers \<mu> e k (m # rest) =
     (Tested k # fst (range_matchers \<mu> e (Suc k) rest), snd (range_matchers \<mu> e (Suc k) rest))"
  by (simp add: sentinel_matcher_without_error_never_matches split: prod.splits)

section \<open>Properties of the dispatcher\<close>

text \<open>
  C1. For a non-nil error, when the loop reaches, after tests that all reported no match,
  a matcher whose test reports a match, the handler of that matcher is invoked on the
  error and \<^verbatim>\<open>HandleError\<close> returns true with what the handler returned. The log shows
  that the matchers up to that one were examined, that its handler ran, and nothing
  else: no later matcher is examined and no later handler runs, whatever the later
  matchers are.
\<close>

theorem first_match_wins:
  assumes "i < length M"
    and "matches \<mu> e (M ! i) = Inr True"
    and "\<forall>j<i. matches \<mu> e (M ! j) = Inr False"
  shows "HandleError \<mu> (Some e) M =
           (map Tested [0..<Suc i] @ [Invoked i], Inr (True, Handler (M ! i) (Some e)))"
  using range_first_hit [OF assms, of 0] by (simp add: HandleError_def)

theorem first_match_wins_witness:
  "HandleError no_methods (Some (wrap 8 ''lookup'' ErrNotFound))
     [OnSentinelError (Some ErrConflict) suppress,
      OnSentinelError (Some ErrNotFound) replace_with_R,
      OnSentinelError (Some ErrNotFound) suppress]
   = ([Tested 0, Tested 1, Invoked 1], Inr (True, Some ErrR))
   \<and> matches no_methods (wrap 8 ''lookup'' ErrNotFound) (OnSentinelError (Some ErrNotFound) suppress)
       = Inr True"
  using first_match_wins [of 1 "[OnSentinelError (Some ErrConflict) suppress,
      OnSentinelError (Some ErrNotFound) replace_with_R,
      OnSentinelError (Some ErrNotFound) suppress]" no_methods "wrap 8 ''lookup'' ErrNotFound"]
  by (simp add: matches_def OnSentinelError_def errors_Is_def equal_values_def wrap_def ErrNotFound_def
      ErrConflict_def errorString_def no_methods_def call_Is_def replace_with_R_def)

text \<open>
  C2. For a non-nil error on which the test of every matcher reports no match,
  \<^verbatim>\<open>HandleError\<close> returns false together with the error it was given.
\<close>

theorem unmatched_returns_original:
  assumes "\<forall>m\<in>set M. matches \<mu> e m = Inr False"
  shows "HandleError \<mu> (Some e) M = (map Tested [0..<length M], Inr (False, Some e))"
  using range_all_miss [OF assms, of 0] by (simp add: HandleError_def)

theorem unmatched_returns_original_witness:
  "HandleError no_methods (Some status404)
     [OnSentinelError (Some ErrConflict) suppress, OnSentinelError (Some ErrNotFound) replace_with_R]
   = ([Tested 0, Tested 1], Inr (False, Some status404))"
  using unmatched_returns_original [of "[OnSentinelError (Some ErrConflict) suppress,
     OnSentinelError (Some ErrNotFound) replace_with_R]" no_methods status404]
  by (simp add: matches_def OnSentinelError_def errors_Is_def equal_values_def ErrNotFound_def
      ErrConflict_def errorString_def no_methods_def call_Is_def status404_def StatusError_def)

text \<open>
  C3. On a nil error \<^verbatim>\<open>HandleError\<close> returns true and nil for every list of matchers,
  the empty one included, and the log is empty: no matcher is examined and no handler
  is invoked.
\<close>

theorem nil_error_is_handled:
  "HandleError \<mu> None M = ([], Inr (True, None))"
  by (simp add: HandleError_def)

text \<open>
  C4. The claim is that a matcher with a rule that is invalid for its kind never matches
  and is passed over without a crash. That holds for the sentinel kind (third run
  below, and \<open>sentinel_matcher_without_error_is_skipped\<close>). For the other kind the
  dispatcher panics: with the zero value of \<^verbatim>\<open>ErrorMatcher\<close> in first place (first run)
  and with an \<^verbatim>\<open>int\<close> as the type witness (second run), although the matcher that
  follows would match.
\<close>

theorem malformed_typed_matcher_crashes:
  "HandleError no_methods (Some ErrNotFound)
     [zero_matcher, OnSentinelError (Some ErrNotFound) replace_with_R]
   = ([Tested 0], Inl (Panic ''reflect: New(nil)''))
   \<and> HandleError no_methods (Some ErrNotFound)
     [\<lparr>ErrorType = AnyOther ''int'', Handler = suppress, IsSentinel = False\<rparr>,
      OnSentinelError (Some ErrNotFound) replace_with_R]
   = ([Tested 0], Inl (Panic ''errors: *target must be interface or implement error''))
   \<and> HandleError no_methods (Some ErrNotFound)
     [\<lparr>ErrorType = AnyOther ''int'', Handler = suppress, IsSentinel = True\<rparr>,
      OnSentinelError (Some ErrNotFound) replace_with_R]
   = ([Tested 0, Tested 1, Invoked 1], Inr (True, Some ErrR))"
  by (simp add: HandleError_def matches_def zero_matcher_def errors_As_def OnSentinelError_def
      errors_Is_def equal_values_def ErrNotFound_def errorString_def replace_with_R_def)

text \<open>
  C5. For a non-nil error, \<^verbatim>\<open>HandleErrorOrDie\<close> raises its panic, whose message holds
  the name of the dynamic type of the error and the string of the error, exactly when
  the test of every matcher reports no match. When the loop reaches a matcher whose
  test reports a match, it returns what that handler returned, and on a nil error it
  returns nil.
\<close>

theorem escalation_when_unmatched:
  "(snd (HandleErrorOrDie \<mu> (Some e) M)
       = Inl (Panic (''Unhandled error of type '' @ tyName (dynType e) @ '': '' @ errorText e)))
     = (\<forall>m\<in>set M. matches \<mu> e m = Inr False)
   \<and> (i < length M \<and> matches \<mu> e (M ! i) = Inr True \<and> (\<forall>j<i. matches \<mu> e (M ! j) = Inr False)
        \<longrightarrow> HandleErrorOrDie \<mu> (Some e) M
              = (map Tested [0..<Suc i] @ [Invoked i], Inr (Handler (M ! i) (Some e))))
   \<and> HandleErrorOrDie \<mu> None M = ([], Inr None)"
proof -
  have a: "(snd (HandleErrorOrDie \<mu> (Some e) M)
       = Inl (Panic (''Unhandled error of type '' @ tyName (dynType e) @ '': '' @ errorText e)))
     = (\<forall>m\<in>set M. matches \<mu> e m = Inr False)"
    using die_unhandled_iff [of \<mu> e M] by (simp add: Sprintf_Unhandled_def fmt_T_def fmt_v_def)
  have b: "i < length M \<and> matches \<mu> e (M ! i) = Inr True \<and> (\<forall>j<i. matches \<mu> e (M ! j) = Inr False)
        \<longrightarrow> HandleErrorOrDie \<mu> (Some e) M
              = (map Tested [0..<Suc i] @ [Invoked i], Inr (Handler (M ! i) (Some e)))"
  proof
    assume h: "i < length M \<and> matches \<mu> e (M ! i) = Inr True \<and> (\<forall>j<i. matches \<mu> e (M ! j) = Inr False)"
    then have "range_matchers \<mu> e 0 M
       = (map Tested [0..<Suc (0 + i)] @ [Invoked (0 + i)], Inr (True, Handler (M ! i) (Some e)))"
      by (intro range_first_hit) auto
    then show "HandleErrorOrDie \<mu> (Some e) M
              = (map Tested [0..<Suc i] @ [Invoked i], Inr (Handler (M ! i) (Some e)))"
      by (simp add: HandleErrorOrDie_def HandleError_def)
  qed
  have c: "HandleErrorOrDie \<mu> None M = ([], Inr None)"
    by (simp add: HandleErrorOrDie_def HandleError_def)
  from a b c show ?thesis by blast
qed

theorem escalation_when_unmatched_witness:
  "snd (HandleErrorOrDie no_methods (Some status404)
         [OnSentinelError (Some ErrConflict) suppress, OnSentinelError (Some ErrNotFound) replace_with_R])
     = Inl (Panic ''Unhandled error of type *main.StatusError: status 404'')
   \<and> HandleErrorOrDie no_methods (Some ErrNotFound)
         [OnSentinelError (Some ErrConflict) suppress, OnSentinelError (Some ErrNotFound) replace_with_R]
     = ([Tested 0, Tested 1, Invoked 1], Inr (Some ErrR))"
  using escalation_when_unmatched [of no_methods status404
      "[OnSentinelError (Some ErrConflict) suppress, OnSentinelError (Some ErrNotFound) replace_with_R]" 0]
    escalation_when_unmatched [of no_methods ErrNotFound
      "[OnSentinelError (Some ErrConflict) suppress, OnSentinelError (Some ErrNotFound) replace_with_R]" 1]
  by (simp add: matches_def OnSentinelError_def errors_Is_def equal_values_def ErrNotFound_def
      ErrConflict_def errorString_def no_methods_def call_Is_def status404_def StatusError_def
      replace_with_R_def)

text \<open>
  C6. For a non-nil error on which the test of every matcher reports no match,
  \<^verbatim>\<open>HandleErrorOrDefault\<close> returns nil when the default handler is nil, and otherwise
  what the default handler returns on the error it was given. When the loop reaches a
  matcher whose test reports a match, it returns what that handler returned, and the
  log holds no invocation of the default handler.
\<close>

theorem fallback_to_default:
  "((\<forall>m\<in>set M. matches \<mu> e m = Inr False) \<longrightarrow>
      HandleErrorOrDefault \<mu> (Some e) None M = (map Tested [0..<length M], Inr None)
      \<and> HandleErrorOrDefault \<mu> (Some e) (Some d) M
          = (map Tested [0..<length M] @ [InvokedDefault], Inr (d (Some e))))
   \<and> (i < length M \<and> matches \<mu> e (M ! i) = Inr True \<and> (\<forall>j<i. matches \<mu> e (M ! j) = Inr False)
        \<longrightarrow> HandleErrorOrDefault \<mu> (Some e) dft M
              = (map Tested [0..<Suc i] @ [Invoked i], Inr (Handler (M ! i) (Some e))))"
proof -
  have a: "(\<forall>m\<in>set M. matches \<mu> e m = Inr False) \<longrightarrow>
      HandleErrorOrDefault \<mu> (Some e) None M = (map Tested [0..<length M], Inr None)
      \<and> HandleErrorOrDefault \<mu> (Some e) (Some d) M
          = (map Tested [0..<length M] @ [InvokedDefault], Inr (d (Some e)))"
  proof
    assume all: "\<forall>m\<in>set M. matches \<mu> e m = Inr False"
    show "HandleErrorOrDefault \<mu> (Some e) None M = (map Tested [0..<length M], Inr None)
      \<and> HandleErrorOrDefault \<mu> (Some e) (Some d) M
          = (map Tested [0..<length M] @ [InvokedDefault], Inr (d (Some e)))"
      using range_all_miss [OF all, of 0] by (simp add: HandleErrorOrDefault_def HandleError_def)
  qed
  have b: "i < length M \<and> matches \<mu> e (M ! i) = Inr True \<and> (\<forall>j<i. matches \<mu> e (M ! j) = Inr False)
        \<longrightarrow> HandleErrorOrDefault \<mu> (Some e) dft M
              = (map Tested [0..<Suc i] @ [Invoked i], Inr (Handler (M ! i) (Some e)))"
  proof
    assume h: "i < length M \<and> matches \<mu> e (M ! i) = Inr True \<and> (\<forall>j<i. matches \<mu> e (M ! j) = Inr False)"
    then have "range_matchers \<mu> e 0 M
       = (map Tested [0..<Suc (0 + i)] @ [Invoked (0 + i)], Inr (True, Handler (M ! i) (Some e)))"
      by (intro range_first_hit) auto
    then show "HandleErrorOrDefault \<mu> (Some e) dft M
              = (map Tested [0..<Suc i] @ [Invoked i], Inr (Handler (M ! i) (Some e)))"
      by (simp add: HandleErrorOrDefault_def HandleError_def)
  qed
  from a b show ?thesis by blast
qed

theorem fallback_to_default_witness:
  "HandleErrorOrDefault no_methods (Some status404) None
       [OnSentinelError (Some ErrConflict) pass_through, OnSentinelError (Some ErrNotFound) suppress]
     = ([Tested 0, Tested 1], Inr None)
   \<and> HandleErrorOrDefault no_methods (Some status404) (Some replace_with_R)
       [OnSentinelError (Some ErrConflict) pass_through, OnSentinelError (Some ErrNotFound) suppress]
     = ([Tested 0, Tested 1, InvokedDefault], Inr (Some ErrR))
   \<and> HandleErrorOrDefault no_methods (Some ErrConflict) (Some replace_with_R)
       [OnSentinelError (Some ErrConflict) pass_through, OnSentinelError (Some ErrNotFound) suppress]
     = ([Tested 0, Invoked 0], Inr (Some ErrConflict))"
  using fallback_to_default [of "[OnSentinelError (Some ErrConflict) pass_through,
        OnSentinelError (Some ErrNotFound) suppress]" no_methods status404 replace_with_R 0 None]
    fallback_to_default [of "[OnSentinelError (Some ErrConflict) pass_through,
        OnSentinelError (Some ErrNotFound) suppress]" no_methods ErrConflict replace_with_R 0
        "Some replace_with_R"]
  by (simp add: matches_def OnSentinelError_def errors_Is_def equal_values_def ErrNotFound_def
      ErrConflict_def errorString_def no_methods_def call_Is_def status404_def StatusError_def
      replace_with_R_def pass_through_def)







text \<open>
  C9. The result of \<^verbatim>\<open>HandleError\<close> on a non-nil error is determined by the verdicts
  of the tests and by what the handlers return on that error: two lists of matchers
  that agree on these, position by position, give the same result and the same log.
  And whenever the result is true with some error \<open>r\<close>, then \<open>r\<close> is what the handler
  of the first matcher whose test reports a match returns.
\<close>

theorem dispatch_is_determined:
  "(length M = length M'
      \<and> (\<forall>i<length M. matches \<mu> e (M ! i) = matches \<mu> e (M' ! i)
             \<and> Handler (M ! i) (Some e) = Handler (M' ! i) (Some e))
      \<longrightarrow> HandleError \<mu> (Some e) M = HandleError \<mu> (Some e) M')
   \<and> (HandleError \<mu> (Some e) M = (log, Inr (True, r)) \<longrightarrow>
        (\<exists>i<length M. matches \<mu> e (M ! i) = Inr True
             \<and> (\<forall>j<i. matches \<mu> e (M ! j) = Inr False)
             \<and> r = Handler (M ! i) (Some e)))"
proof -
  have a: "length M = length M'
      \<and> (\<forall>i<length M. matches \<mu> e (M ! i) = matches \<mu> e (M' ! i)
             \<and> Handler (M ! i) (Some e) = Handler (M' ! i) (Some e))
      \<longrightarrow> HandleError \<mu> (Some e) M = HandleError \<mu> (Some e) M'"
    using range_extensional [of M M' \<mu> e 0] by (simp add: HandleError_def)
  have b: "HandleError \<mu> (Some e) M = (log, Inr (True, r)) \<longrightarrow>
        (\<exists>i<length M. matches \<mu> e (M ! i) = Inr True
             \<and> (\<forall>j<i. matches \<mu> e (M ! j) = Inr False)
             \<and> r = Handler (M ! i) (Some e))"
    using range_returns_matched [of \<mu> e 0 M log r] by (auto simp: HandleError_def)
  from a b show ?thesis by blast
qed

theorem dispatch_is_determined_witness:
  "HandleError no_methods (Some ErrNotFound)
       [OnSentinelError (Some ErrConflict) suppress, OnSentinelError (Some ErrNotFound) replace_with_R]
     = HandleError no_methods (Some ErrNotFound)
       [OnSentinelError (Some ErrR) suppress, OnSentinelError (Some ErrNotFound) replace_with_R]
   \<and> HandleError no_methods (Some ErrNotFound)
       [OnSentinelError (Some ErrConflict) suppress, OnSentinelError (Some ErrNotFound) replace_with_R]
     = ([Tested 0, Tested 1, Invoked 1], Inr (True, Some ErrR))"
  using dispatch_is_determined [of
      "[OnSentinelError (Some ErrConflict) suppress, OnSentinelError (Some ErrNotFound) replace_with_R]"
      "[OnSentinelError (Some ErrR) suppress, OnSentinelError (Some ErrNotFound) replace_with_R]"
      no_methods ErrNotFound "[Tested 0, Tested 1, Invoked 1]" "Some ErrR"]
  by (simp add: HandleError_def matches_def OnSentinelError_def errors_Is_def equal_values_def ErrNotFound_def ErrR_def
      ErrConflict_def errorString_def no_methods_def call_Is_def replace_with_R_def
      All_less_Suc)

text \<open>
  C10. \<^verbatim>\<open>Handle\<close>, \<^verbatim>\<open>MustHandle\<close> and \<^verbatim>\<open>HandleOr\<close> are declared as the functions
  \<^verbatim>\<open>HandleError\<close>, \<^verbatim>\<open>HandleErrorOrDie\<close> and \<^verbatim>\<open>HandleErrorOrDefault\<close>, so they agree
  on every input.
\<close>

theorem aliases_are_the_same_functions:
  "Handle \<mu> e M = HandleError \<mu> e M
   \<and> MustHandle \<mu> e M = HandleErrorOrDie \<mu> e M
   \<and> HandleOr \<mu> e d M = HandleErrorOrDefault \<mu> e d M"
  by (simp add: Handle_def MustHandle_def HandleOr_def)

end
